theory Spec2Isabelle
  imports Main "HOL-Library.Sublist" "HOL-Library.AList"
begin

section \<open>JavaScript values used by the servers\<close>

text \<open>
  A JavaScript string is a sequence of UTF-16 code units; \<open>length\<close> counts them and
  \<open>String.prototype.includes\<close> searches for a contiguous run of them. ASCII literals
  are written \<open>js ''...''\<close>, other characters by their code unit.

  \<open>String.prototype.toLowerCase\<close> replaces every character by its lower-case form
  and concatenates the results. An ASCII unit maps to itself, a letter A to Z to the
  letter a to z, whatever surrounds it; the units of the CJK symbols, hiragana and
  katakana blocks (U+3000 to U+30FF) and of the CJK unified ideographs (U+4E00 to
  U+9FFF) have no case and map to themselves. What any other unit contributes is fixed
  by the engine's Unicode tables and can depend on its neighbours (a final sigma, the
  two halves of a surrogate pair, a letter whose lower case is two units long): it is
  the parameter \<open>tbl\<close>, which receives the whole string and the position. Every
  statement that mentions \<open>toLowerCase\<close> holds for every such table.
\<close>

type_synonym jsstring = "nat list"

definition js :: "string \<Rightarrow> jsstring" where
  "js s = map of_char s"

type_synonym case_table = "jsstring \<Rightarrow> nat \<Rightarrow> jsstring"

definition uncased :: "nat \<Rightarrow> bool" where
  "uncased c = ((12288 \<le> c \<and> c \<le> 12543) \<or> (19968 \<le> c \<and> c \<le> 40959))"

fun lower_from :: "case_table \<Rightarrow> jsstring \<Rightarrow> nat \<Rightarrow> jsstring \<Rightarrow> jsstring" where
  "lower_from tbl s i [] = []"
| "lower_from tbl s i (c # cs) =
     (if c < 128 then [if 65 \<le> c \<and> c \<le> 90 then c + 32 else c]
      else if uncased c then [c]
      else tbl s i)
     @ lower_from tbl s (Suc i) cs"

definition toLowerCase :: "case_table \<Rightarrow> jsstring \<Rightarrow> jsstring" where
  "toLowerCase tbl s = lower_from tbl s 0 s"

fun js_includes :: "jsstring \<Rightarrow> jsstring \<Rightarrow> bool" where
  "js_includes [] needle = (needle = [])"
| "js_includes (c # cs) needle = (prefix needle (c # cs) \<or> js_includes cs needle)"

text \<open>
  Truthiness of an optional string property: \<open>undefined\<close> and the empty string are
  falsy. \<open>a || b\<close> on such properties yields the first truthy operand, else the last.
\<close>

definition truthy :: "jsstring option \<Rightarrow> bool" where
  "truthy v = (case v of None \<Rightarrow> False | Some s \<Rightarrow> s \<noteq> [])"

definition js_or :: "jsstring option \<Rightarrow> jsstring option \<Rightarrow> jsstring option" where
  "js_or a b = (if truthy a then a else b)"

section \<open>The User model (models/User.js)\<close>

text \<open>
  Times are milliseconds since the epoch, as \<open>Date.now()\<close> returns them; a \<open>Date\<close>
  field is its time value, \<open>None\<close> when the field is unset. Every call of a method or
  handler reads the clock once (\<open>now\<close>). The fields of the schema that no modelled
  method reads or writes (names, preferences, two-factor and reset tokens,
  conversations) are left out.
\<close>

datatype role = RoleUser | RolePremium | RoleAdmin

record usage_doc =
  questionsAsked :: int
  dailyLimit :: int
  monthlyLimit :: int
  lastResetDate :: int

record user =
  uid :: jsstring
  username :: jsstring
  email :: jsstring
  password :: jsstring
  role :: role
  isActive :: bool
  isEmailVerified :: bool
  emailVerificationToken :: "jsstring option"
  emailVerificationExpires :: "int option"
  loginAttempts :: int
  lockUntil :: "int option"
  lastLogin :: "int option"
  lastLoginIP :: "jsstring option"
  usage :: usage_doc

text \<open>The virtual \<open>isLocked\<close>: \<open>!!(this.lockUntil && this.lockUntil > Date.now())\<close>.\<close>

definition isLocked :: "user \<Rightarrow> int \<Rightarrow> bool" where
  "isLocked u now = (case lockUntil u of None \<Rightarrow> False | Some t \<Rightarrow> t > now)"

text \<open>
  \<open>incLoginAttempts\<close> and \<open>resetLoginAttempts\<close> issue one \<open>updateOne\<close> on the stored
  document; the model returns the document after the update. \<open>$unset\<close> of
  \<open>loginAttempts\<close> leaves the schema default 0 on the next load.
\<close>

definition incLoginAttempts :: "user \<Rightarrow> int \<Rightarrow> user" where
  "incLoginAttempts u now =
     (if (case lockUntil u of None \<Rightarrow> False | Some t \<Rightarrow> t < now)
      then u\<lparr>lockUntil := None, loginAttempts := 1\<rparr>
      else if loginAttempts u + 1 \<ge> 5 \<and> \<not> isLocked u now
      then u\<lparr>loginAttempts := loginAttempts u + 1,
             lockUntil := Some (now + 2 * 60 * 60 * 1000)\<rparr>
      else u\<lparr>loginAttempts := loginAttempts u + 1\<rparr>)"

definition resetLoginAttempts :: "user \<Rightarrow> int \<Rightarrow> jsstring \<Rightarrow> user" where
  "resetLoginAttempts u now currentIP =
     u\<lparr>loginAttempts := 0, lockUntil := None,
       lastLogin := Some now, lastLoginIP := Some currentIP\<rparr>"

text \<open>
  \<open>toDateString\<close> names the calendar day of a time; two times have the same string
  exactly when they fall on the same day (the server's zone is taken to be UTC).
\<close>

definition toDateString :: "int \<Rightarrow> int" where
  "toDateString t = t div 86400000"

definition incrementUsage :: "user \<Rightarrow> int \<Rightarrow> user" where
  "incrementUsage u today =
     (let g = usage u;
          g1 = (if toDateString today \<noteq> toDateString (lastResetDate g)
                then g\<lparr>questionsAsked := 0, lastResetDate := today\<rparr>
                else g)
      in u\<lparr>usage := g1\<lparr>questionsAsked := questionsAsked g1 + 1\<rparr>\<rparr>)"

definition canAskQuestion :: "user \<Rightarrow> bool" where
  "canAskQuestion u =
     (let limit = (if role u = RolePremium then dailyLimit (usage u) * 5
                   else dailyLimit (usage u))
      in questionsAsked (usage u) < limit)"

text \<open>
  The states of a user document that the lock-out operations produce, starting from a
  document whose counter and lock are at their schema defaults.
\<close>

inductive reachable :: "user \<Rightarrow> bool" where
  fresh: "loginAttempts u = 0 \<Longrightarrow> lockUntil u = None \<Longrightarrow> reachable u"
| failed: "reachable u \<Longrightarrow> reachable (incLoginAttempts u now)"
| succeeded: "reachable u \<Longrightarrow> reachable (resetLoginAttempts u now ip)"

section \<open>The session object\<close>

text \<open>
  The properties the servers store on \<open>req.session\<close>; a property that was never
  assigned is \<open>None\<close> (\<open>False\<close> for the flag).
\<close>

record session =
  session_userId :: "jsstring option"
  session_username :: "jsstring option"
  session_role :: "role option"
  session_isLoggedIn :: bool
  csrfSecret :: "jsstring option"
  csrfToken :: "jsstring option"

section \<open>POST /login (routes/auth.js)\<close>

datatype login_response =
    AuthenticationFailed
  | AccountLocked
  | EmailNotVerified
  | LoginSuccessful


text \<open>
  The handler body once \<open>User.findOne\<close> has returned a document. \<open>comparePassword\<close>
  stands for \<open>bcrypt.compare(candidate, hash)\<close>. The rate limiter and the validators
  mounted in front of the handler are not part of it.
\<close>

definition login_found ::
  "(jsstring \<Rightarrow> jsstring \<Rightarrow> bool) \<Rightarrow> user \<Rightarrow> session \<Rightarrow> jsstring \<Rightarrow> int \<Rightarrow> jsstring
     \<Rightarrow> login_response \<times> user \<times> session" where
  "login_found comparePassword u sess pw now ip =
     (if isLocked u now then (AccountLocked, u, sess)
      else if \<not> comparePassword pw (password u)
      then (AuthenticationFailed, incLoginAttempts u now, sess)
      else if \<not> isEmailVerified u then (EmailNotVerified, u, sess)
      else (LoginSuccessful, resetLoginAttempts u now ip,
            sess\<lparr>session_userId := Some (uid u),
                 session_username := Some (username u),
                 session_role := Some (role u)\<rparr>))"



text \<open>
  The route as \<open>routes/auth.js\<close> mounts it: \<open>authLimiter\<close>, then \<open>loginValidation\<close>
  with \<open>handleValidationErrors\<close>, then the handler (the audit stage only logs).

  \<open>authLimiter\<close> is an \<open>express-rate-limit\<close> instance with a window of 15 minutes and
  at most 5 requests per key, the key being built from the address and the submitted
  name. Its store keeps, for each key, the number of requests in the current window
  and the time that window ends. When a window that opens at a given time ends is the
  library's business (one window per key from its first request, or all keys reset
  together on a timer): \<open>windowEnd\<close> is that function of the window length and the
  opening time. The limiter counts a request before anything else looks at it, and the
  same instance also counts the requests to \<open>/register\<close>, so the store a login
  request meets is arbitrary. The handler's \<open>catch\<close> (500 when the database, bcrypt or
  the token signer throws) is not modelled: those calls are taken to return.
\<close>

record login_body =
  body_username :: "jsstring option"
  body_email :: "jsstring option"
  body_password :: "jsstring option"




text \<open>
  The validators bound the length of both fields; an absent field is checked as the
  empty string. The validator library does not count every code unit (the second half
  of a surrogate pair, and in later versions a variation selector): \<open>discount\<close> is
  the number of units of a string it leaves out.
\<close>

definition field_value :: "jsstring option \<Rightarrow> jsstring" where
  "field_value v = (case v of None \<Rightarrow> [] | Some x \<Rightarrow> x)"

definition isLength :: "(jsstring \<Rightarrow> nat) \<Rightarrow> jsstring \<Rightarrow> nat \<Rightarrow> nat \<Rightarrow> bool" where
  "isLength discount str lo hi =
     (let len = length str - discount str in lo \<le> len \<and> len \<le> hi)"

definition loginValidation :: "(jsstring \<Rightarrow> nat) \<Rightarrow> login_body \<Rightarrow> bool" where
  "loginValidation discount body =
     (isLength discount (field_value (body_username body)) 1 100
      \<and> isLength discount (field_value (body_password body)) 1 128)"






text \<open>
  A request that names the account \<open>n\<close>, passes validation and carries a password that
  is not the one of the document \<open>u\<close>.
\<close>

definition wrong_for ::
  "(jsstring \<Rightarrow> nat) \<Rightarrow> (jsstring \<Rightarrow> jsstring \<Rightarrow> bool) \<Rightarrow> jsstring \<Rightarrow> user
     \<Rightarrow> jsstring \<times> login_body \<times> int \<Rightarrow> bool" where
  "wrong_for discount comparePassword n u q =
     (case q of
        (ip, body, now) \<Rightarrow>
          body_username body = Some n \<and> loginValidation discount body
          \<and> \<not> comparePassword (field_value (body_password body)) (password u))"

text \<open>Sample documents and sessions for the concrete runs below.\<close>

definition new_session :: session where
  "new_session = \<lparr>session_userId = None, session_username = None, session_role = None,
     session_isLoggedIn = False, csrfSecret = None, csrfToken = None\<rparr>"

definition sample_user :: user where
  "sample_user = \<lparr>uid = js ''u1'', username = js ''alice'', email = js ''alice@example.com'',
     password = js ''Secret@123'', role = RoleUser, isActive = True, isEmailVerified = True,
     emailVerificationToken = None, emailVerificationExpires = None,
     loginAttempts = 0, lockUntil = None, lastLogin = None, lastLoginIP = None,
     usage = \<lparr>questionsAsked = 0, dailyLimit = 100, monthlyLimit = 3000,
       lastResetDate = 0\<rparr>\<rparr>"

definition unverified_user :: user where
  "unverified_user = sample_user\<lparr>isEmailVerified := False\<rparr>"

definition five_failures :: user where
  "five_failures =
     incLoginAttempts (incLoginAttempts (incLoginAttempts (incLoginAttempts
       (incLoginAttempts sample_user 1000) 2000) 3000) 4000) 5000"









section \<open>POST /message (routes/chat.js)\<close>

text \<open>
  The keyword list of the handler; the last six entries are the Japanese words for
  function, Excel, formula, pivot, graph and macro.
\<close>

definition excelKeywords :: "jsstring list" where
  "excelKeywords =
     [js ''excel'', js ''spreadsheet'', js ''formula'', js ''function'', js ''cell'',
      js ''row'', js ''column'', js ''pivot'', js ''chart'', js ''macro'', js ''vba'',
      js ''worksheet'', js ''workbook'', js ''sum'', js ''vlookup'', js ''hlookup'',
      js ''if'', js ''countif'', js ''sumif'', js ''index'', js ''match'',
      [38306, 25968], [12456, 12463, 12475, 12523], [25968, 24335],
      [12500, 12508, 12483, 12488], [12464, 12521, 12501], [12510, 12463, 12525]]"

definition hasExcelKeywords :: "case_table \<Rightarrow> jsstring \<Rightarrow> bool" where
  "hasExcelKeywords tbl message =
     list_ex (\<lambda>keyword. js_includes (toLowerCase tbl message) keyword) excelKeywords"

text \<open>
  The knowledge collections live in the database. \<open>knowledge_hits\<close> is what the four
  text-search queries match for a message, in result order; the lookup function that
  produces it is a parameter of the model, \<open>None\<close> when a query is rejected.
\<close>

record excel_function =
  fn_name :: jsstring
  fn_description :: jsstring
  fn_syntax :: jsstring

record excel_feature =
  feature_name :: jsstring
  feature_description :: jsstring

record best_practice =
  practice_title :: jsstring
  practice_description :: jsstring

record knowledge_hits =
  function_hits :: "excel_function list"
  feature_hits :: "excel_feature list"
  practice_hits :: "best_practice list"
  faq_hits :: "jsstring list"

record knowledge_base =
  kb_functions :: "excel_function list"
  kb_features :: "excel_feature list"
  kb_practices :: "best_practice list"
  kb_faqs :: "jsstring list"
  totalResults :: nat

definition searchExcelKnowledge ::
  "(jsstring \<Rightarrow> knowledge_hits option) \<Rightarrow> jsstring \<Rightarrow> knowledge_base option" where
  "searchExcelKnowledge textSearch query =
     (case textSearch query of
        None \<Rightarrow> None
      | Some h \<Rightarrow>
          (let fs = take 5 (function_hits h); es = take 3 (feature_hits h);
               ps = take 3 (practice_hits h); qs = take 5 (faq_hits h)
           in Some \<lparr>kb_functions = fs, kb_features = es, kb_practices = ps, kb_faqs = qs,
                totalResults = length fs + length es + length ps + length qs\<rparr>))"

record ai_response =
  ai_message :: jsstring
  knowledgeResults :: nat
  ai_model :: jsstring

text \<open>
  \<open>generateAIResponse\<close> assembles the reply text and then counts the question against
  the user's quota. The measured response time is left out.
\<close>

definition function_block :: "excel_function \<Rightarrow> jsstring" where
  "function_block func =
     ([8226] @ js '' **'') @ fn_name func @ js ''**: '' @ fn_description func @ [10]
     @ (js ''  '' @ [27083, 25991] @ js '': '' @ [96]) @ fn_syntax func @ [96, 10, 10]"

definition feature_block :: "excel_feature \<Rightarrow> jsstring" where
  "feature_block feature =
     ([8226] @ js '' **'') @ feature_name feature @ js ''**: '' @ feature_description feature @ [10, 10]"

definition practice_block :: "best_practice \<Rightarrow> jsstring" where
  "practice_block practice =
     ([8226] @ js '' **'') @ practice_title practice @ js ''**: '' @ practice_description practice @ [10, 10]"

definition generateAIResponse ::
  "jsstring \<Rightarrow> knowledge_base \<Rightarrow> user option \<Rightarrow> int \<Rightarrow> ai_response \<times> user option" where
  "generateAIResponse message knowledgeBase usr today =
     (let response =
        ([30003, 12375, 35379, 12372, 12374, 12356, 12414, 12379, 12435, 12364, 12289,
         29694, 22312] @ js ''AI'' @ [27231, 33021, 12399, 38283, 30330, 20013, 12391,
         12377, 12290, 10, 10])
        @ (if totalResults knowledgeBase > 0
           then ([38306, 36899, 12377, 12427, 24773, 22577, 12434, 35211, 12388, 12369,
                 12414, 12375, 12383, 65306, 10, 10])
             @ (if length (kb_functions knowledgeBase) > 0
                then ([55357, 56522] @ js '' **'' @ [38306, 36899, 12377, 12427] @
                      js ''Excel'' @ [38306, 25968] @ js '':**'' @ [10])
                  @ concat (map function_block (kb_functions knowledgeBase))
                else [])
             @ (if length (kb_features knowledgeBase) > 0
                then ([55357, 56615] @ js '' **'' @ [38306, 36899, 12377, 12427] @
                      js ''Excel'' @ [27231, 33021] @ js '':**'' @ [10])
                  @ concat (map feature_block (kb_features knowledgeBase))
                else [])
             @ (if length (kb_practices knowledgeBase) > 0
                then ([55357, 56481] @ js '' **'' @ [12505, 12473, 12488, 12503, 12521,
                      12463, 12486, 12451, 12473] @ js '':**'' @ [10])
                  @ concat (map practice_block (kb_practices knowledgeBase))
                else [])
           else ([30003, 12375, 35379, 12372, 12374, 12356, 12414, 12379, 12435, 12364,
                 12289, 12362, 25506, 12375, 12398, 24773, 22577, 12364, 35211, 12388,
                 12363, 12426, 12414, 12379, 12435, 12391, 12375, 12383, 12290, 10])
             @ ([12424, 12426, 20855, 20307, 30340, 12394] @ js ''Excel'' @ [38306,
                36899, 12398, 12461, 12540, 12527, 12540, 12489, 12434, 20351, 12387,
                12390, 12418, 12358, 19968, 24230, 12362, 35430, 12375, 12367, 12384,
                12373, 12356, 12290, 10, 10])
             @ ([20363, 65306, 10])
             @ ([8226] @ js '' '' @ [12300] @ js ''VLOOKUP'' @ [38306, 25968, 12398,
                20351, 12356, 26041, 12301, 10])
             @ ([8226] @ js '' '' @ [12300, 12500, 12508, 12483, 12488, 12486, 12540,
                12502, 12523, 12398, 20316, 25104, 26041, 27861, 12301, 10])
             @ ([8226] @ js '' '' @ [12300, 26465, 20214, 20184, 12365, 26360, 24335,
                12398, 35373, 23450, 12301]))
      in (\<lparr>ai_message = response, knowledgeResults = totalResults knowledgeBase,
           ai_model = js ''excel-knowledge-base''\<rparr>,
          map_option (\<lambda>u. incrementUsage u today) usr))"

datatype chat_response =
    DailyLimitExceeded
  | NonExcelQuestion
  | ChatProcessingFailed
  | ChatReply ai_response

fun chat_status :: "chat_response \<Rightarrow> nat" where
  "chat_status DailyLimitExceeded = 429"
| "chat_status NonExcelQuestion = 400"
| "chat_status ChatProcessingFailed = 500"
| "chat_status (ChatReply r) = 200"


text \<open>
  The handler runs behind the authentication middleware, so \<open>req.user\<close> is a loaded
  document. \<open>respond\<close> is the handler from the keyword check on; \<open>post_message\<close> is the
  whole handler, which checks the quota first.
\<close>

definition respond ::
  "case_table \<Rightarrow> (jsstring \<Rightarrow> knowledge_hits option) \<Rightarrow> user \<Rightarrow> jsstring \<Rightarrow> int
     \<Rightarrow> chat_response \<times> user" where
  "respond tbl textSearch u message today =
     (if \<not> hasExcelKeywords tbl message then (NonExcelQuestion, u)
      else (case searchExcelKnowledge textSearch message of
              None \<Rightarrow> (ChatProcessingFailed, u)
            | Some knowledgeBase \<Rightarrow>
                (case generateAIResponse message knowledgeBase (Some u) today of
                   (aiResponse, u') \<Rightarrow>
                     (ChatReply aiResponse, (case u' of None \<Rightarrow> u | Some v \<Rightarrow> v)))))"

definition post_message ::
  "case_table \<Rightarrow> (jsstring \<Rightarrow> knowledge_hits option) \<Rightarrow> user \<Rightarrow> jsstring \<Rightarrow> int
     \<Rightarrow> chat_response \<times> user" where
  "post_message tbl textSearch u message today =
     (if \<not> canAskQuestion u then (DailyLimitExceeded, u)
      else respond tbl textSearch u message today)"

section \<open>CSRF protection (middleware/csrf.js, mounted in server.js)\<close>

text \<open>
  The parts of a request the middleware reads: the method, and the token as sent in
  the \<open>x-csrf-token\<close> header, in \<open>body._csrf\<close> or in \<open>query._csrf\<close>. The library calls
  \<open>tokens.verify\<close> and \<open>tokens.secretSync\<close> are parameters: the check of a token
  against a secret, and the secret a session without one receives.
\<close>

record request =
  req_method :: jsstring
  header_csrf_token :: "jsstring option"
  body_csrf :: "jsstring option"
  query_csrf :: "jsstring option"

datatype csrf_outcome = CsrfNext | CsrfTokenInvalid

fun csrf_status :: "csrf_outcome \<Rightarrow> nat option" where
  "csrf_status CsrfNext = None"
| "csrf_status CsrfTokenInvalid = Some 403"

definition csrfProtection ::
  "(jsstring \<Rightarrow> jsstring \<Rightarrow> bool) \<Rightarrow> jsstring \<Rightarrow> request \<Rightarrow> session \<Rightarrow> csrf_outcome \<times> session" where
  "csrfProtection verify secretSync req sess =
     (if req_method req \<in> set [js ''GET'', js ''HEAD'', js ''OPTIONS''] then (CsrfNext, sess)
      else
        (let secret = (case csrfSecret sess of
                         None \<Rightarrow> secretSync
                       | Some x \<Rightarrow> if x = [] then secretSync else x);
             sess' = sess\<lparr>csrfSecret := Some secret\<rparr>;
             token = js_or (js_or (header_csrf_token req) (body_csrf req)) (query_csrf req)
         in (case token of
               None \<Rightarrow> (CsrfTokenInvalid, sess')
             | Some tk \<Rightarrow>
                 if tk = [] then (CsrfTokenInvalid, sess')
                 else if verify secret tk then (CsrfNext, sess')
                 else (CsrfTokenInvalid, sess'))))"

text \<open>
  \<open>server.js\<close> mounts \<open>csrfProtection\<close> on \<open>/api\<close> in front of every router: a request
  the middleware answers never reaches its route handler.
\<close>

datatype 'r api_result = Rejected nat | Handled 'r

definition api_pipeline ::
  "(jsstring \<Rightarrow> jsstring \<Rightarrow> bool) \<Rightarrow> jsstring \<Rightarrow> (request \<Rightarrow> session \<Rightarrow> 'r \<times> session)
     \<Rightarrow> request \<Rightarrow> session \<Rightarrow> 'r api_result \<times> session" where
  "api_pipeline verify secretSync handler req sess =
     (case csrfProtection verify secretSync req sess of
        (CsrfTokenInvalid, sess') \<Rightarrow> (Rejected 403, sess')
      | (CsrfNext, sess') \<Rightarrow>
          (case handler req sess' of (r, sess'') \<Rightarrow> (Handled r, sess'')))"

section \<open>POST /register (routes/auth.js)\<close>

datatype register_response =
    UserAlreadyExists
  | UserRegistered user
  | RegistrationFailed

fun register_status :: "register_response \<Rightarrow> nat" where
  "register_status UserAlreadyExists = 409"
| "register_status (UserRegistered u) = 201"
| "register_status RegistrationFailed = 500"

text \<open>
  The handler behind the rate limiter and the validators. \<open>saves\<close> tells whether
  \<open>user.save()\<close> accepts the document, \<open>hash\<close> is the bcrypt hash of the pre-save hook,
  \<open>newId\<close> and \<open>token\<close> are the generated document id and verification token. The
  session is not written on any path.
\<close>

definition auth_register ::
  "case_table \<Rightarrow> (user \<Rightarrow> bool) \<Rightarrow> (jsstring \<Rightarrow> jsstring) \<Rightarrow> user list \<Rightarrow> session
     \<Rightarrow> jsstring \<Rightarrow> jsstring \<Rightarrow> jsstring \<Rightarrow> jsstring \<Rightarrow> jsstring \<Rightarrow> int
     \<Rightarrow> register_response \<times> user list \<times> session" where
  "auth_register tbl saves hash db sess name mail pw newId token now =
     (case find (\<lambda>u. email u = mail \<or> username u = name) db of
        Some existingUser \<Rightarrow> (UserAlreadyExists, db, sess)
      | None \<Rightarrow>
          (let u = \<lparr>uid = newId, username = name, email = toLowerCase tbl mail,
                     password = hash pw, role = RoleUser, isActive = True,
                     isEmailVerified = False, emailVerificationToken = Some token,
                     emailVerificationExpires = Some (now + 24 * 60 * 60 * 1000),
                     loginAttempts = 0, lockUntil = None, lastLogin = None,
                     lastLoginIP = None,
                     usage = \<lparr>questionsAsked = 0, dailyLimit = 100, monthlyLimit = 3000,
                       lastResetDate = now\<rparr>\<rparr>
           in if saves u then (UserRegistered u, db @ [u], sess)
              else (RegistrationFailed, db, sess)))"

section \<open>The demo server (server-simple.js)\<close>

text \<open>
  \<open>users\<close> is a \<open>Map\<close> from id to user object, iterated in insertion order: an
  association list, with \<open>AList.update\<close> for \<open>users.set\<close> and \<open>map_of\<close> for
  \<open>users.get\<close>. Of a user object the id, name, password, address and creation time
  are kept.
\<close>

record simple_user =
  su_id :: jsstring
  su_username :: jsstring
  su_password :: "jsstring option"
  su_email :: "jsstring option"
  su_createdAt :: "int option"

type_synonym user_store = "(jsstring \<times> simple_user) list"

datatype simple_register_response =
    CredentialsRequired
  | UsernameTooShort
  | PasswordTooShort
  | Conflict
  | Registered simple_user

fun simple_register_status :: "simple_register_response \<Rightarrow> nat" where
  "simple_register_status CredentialsRequired = 400"
| "simple_register_status UsernameTooShort = 400"
| "simple_register_status PasswordTooShort = 400"
| "simple_register_status Conflict = 409"
| "simple_register_status (Registered u) = 201"

text \<open>
  The new id is \<open>user_\<close> followed by the clock reading and a random suffix;
  \<open>stamp\<close> stands for that tail. The body fields are \<open>None\<close> when absent.
\<close>

definition simple_register ::
  "user_store \<Rightarrow> session \<Rightarrow> jsstring option \<Rightarrow> jsstring option \<Rightarrow> jsstring option
     \<Rightarrow> jsstring \<Rightarrow> int \<Rightarrow> simple_register_response \<times> user_store \<times> session" where
  "simple_register users sess name pw mail stamp now =
     (case (name, pw) of
        (Some n, Some p) \<Rightarrow>
          if n = [] then (CredentialsRequired, users, sess)
          else if p = [] then (CredentialsRequired, users, sess)
          else if length n < 3 then (UsernameTooShort, users, sess)
          else if length p < 6 then (PasswordTooShort, users, sess)
          else if list_ex (\<lambda>(i, u). su_username u = n) users then (Conflict, users, sess)
          else
            (let userId = js ''user_'' @ stamp;
                 newUser = \<lparr>su_id = userId, su_username = n, su_password = Some p,
                              su_email = (if truthy mail then mail else None),
                              su_createdAt = Some now\<rparr>
             in (Registered newUser, AList.update userId newUser users,
                 sess\<lparr>session_isLoggedIn := True, session_userId := Some userId,
                      session_username := Some n\<rparr>))
      | _ \<Rightarrow> (CredentialsRequired, users, sess))"

text \<open>The demo login stores the fixed demo user under its id.\<close>

definition demo_user :: simple_user where
  "demo_user = \<lparr>su_id = js ''demo-user-001'', su_username = js ''demo'', su_password = None,
     su_email = Some (js ''demo@example.com''), su_createdAt = None\<rparr>"

datatype simple_login_response = LoginFieldsRequired | InvalidCredentials | DemoLoggedIn simple_user

definition simple_login ::
  "user_store \<Rightarrow> session \<Rightarrow> jsstring option \<Rightarrow> jsstring option
     \<Rightarrow> simple_login_response \<times> user_store \<times> session" where
  "simple_login users sess name pw =
     (if \<not> truthy name then (LoginFieldsRequired, users, sess)
      else if \<not> truthy pw then (LoginFieldsRequired, users, sess)
      else if name = Some (js ''demo'') \<and> pw = Some (js ''demo123'')
      then (DemoLoggedIn demo_user, AList.update (su_id demo_user) demo_user users,
            sess\<lparr>session_userId := Some (su_id demo_user), session_isLoggedIn := True\<rparr>)
      else (InvalidCredentials, users, sess))"

text \<open>\<open>GET /api/auth/me\<close>: the user the session identifies, or 401.\<close>

definition simple_me :: "user_store \<Rightarrow> session \<Rightarrow> simple_user option" where
  "simple_me users sess =
     (if session_isLoggedIn sess \<and> truthy (session_userId sess)
      then (case session_userId sess of None \<Rightarrow> None | Some i \<Rightarrow> map_of users i)
      else None)"

subsection \<open>Chat history\<close>

text \<open>
  \<open>chatHistory\<close> is a \<open>Map\<close> from the identity key to an array of entries. The key is
  \<open>req.session.userId || 'guest'\<close>. \<open>ExcelAI.generateResponse\<close> is a parameter of the
  model, \<open>None\<close> when the call throws.
\<close>

datatype chat_entry =
    UserEntry int jsstring int
  | BotEntry int jsstring "jsstring list" "jsstring option" int

type_synonym chat_store = "jsstring \<rightharpoonup> chat_entry list"

record excel_ai_reply =
  reply_response :: jsstring
  reply_formulas :: "jsstring list option"
  reply_vbaCode :: "jsstring option"
  reply_functionsFound :: "nat option"

definition session_key :: "session \<Rightarrow> jsstring" where
  "session_key sess =
     (case session_userId sess of
        None \<Rightarrow> js ''guest''
      | Some i \<Rightarrow> if i = [] then js ''guest'' else i)"

datatype simple_chat_response =
    MessageRequired
  | ExcelAIError
  | ChatAnswer jsstring "jsstring list" "jsstring option" nat

fun simple_chat_status :: "simple_chat_response \<Rightarrow> nat" where
  "simple_chat_status MessageRequired = 400"
| "simple_chat_status ExcelAIError = 500"
| "simple_chat_status (ChatAnswer r fs v n) = 200"

definition simple_chat_message ::
  "(jsstring \<Rightarrow> excel_ai_reply option) \<Rightarrow> chat_store \<Rightarrow> session \<Rightarrow> jsstring option \<Rightarrow> int
     \<Rightarrow> simple_chat_response \<times> chat_store" where
  "simple_chat_message generateResponse chatHistory sess message now =
     (let userId = session_key sess
      in (case message of
            None \<Rightarrow> (MessageRequired, chatHistory)
          | Some m \<Rightarrow>
              if m = [] then (MessageRequired, chatHistory)
              else
                (case generateResponse m of
                   None \<Rightarrow> (ExcelAIError, chatHistory)
                 | Some aiResponse \<Rightarrow>
                     (let formulas = (case reply_formulas aiResponse of
                                        None \<Rightarrow> [] | Some fs \<Rightarrow> fs);
                          vbaCode = (if truthy (reply_vbaCode aiResponse)
                                     then reply_vbaCode aiResponse else None);
                          userHistory = (case chatHistory userId of
                                           None \<Rightarrow> [] | Some h \<Rightarrow> h)
                            @ [UserEntry now m now,
                               BotEntry (now + 1) (reply_response aiResponse) formulas
                                 vbaCode now];
                          trimmed = (if length userHistory > 100
                                     then drop (length userHistory - 100) userHistory
                                     else userHistory)
                      in (ChatAnswer (reply_response aiResponse) formulas vbaCode
                            (case reply_functionsFound aiResponse of
                               None \<Rightarrow> 0 | Some k \<Rightarrow> k),
                          chatHistory(userId \<mapsto> trimmed))))))"

text \<open>Both history handlers answer 200.\<close>

definition get_history :: "chat_store \<Rightarrow> session \<Rightarrow> nat \<times> chat_entry list" where
  "get_history chatHistory sess =
     (200, (case chatHistory (session_key sess) of None \<Rightarrow> [] | Some h \<Rightarrow> h))"

definition delete_history :: "chat_store \<Rightarrow> session \<Rightarrow> nat \<times> chat_store" where
  "delete_history chatHistory sess = (200, chatHistory(session_key sess := None))"

text \<open>
  \<open>server-simple.js\<close> mounts no CSRF stage: a request reaches its handler whatever its
  token fields hold, and the token that \<open>GET /api/auth/csrf-token\<close> stores in the
  session is read by no route.
\<close>

definition simple_csrf_token :: "jsstring \<Rightarrow> session \<Rightarrow> jsstring \<times> session" where
  "simple_csrf_token token sess = (token, sess\<lparr>csrfToken := Some token\<rparr>)"

definition simple_server_delete_history ::
  "request \<Rightarrow> chat_store \<Rightarrow> session \<Rightarrow> nat \<times> chat_store" where
  "simple_server_delete_history req chatHistory sess = delete_history chatHistory sess"

section \<open>The first demo server's chat endpoint\<close>

text \<open>
  The in-memory function table of the first demo server and its keyword matcher for
  \<open>POST /api/chat/message\<close>. Descriptions are Japanese text.
\<close>

record demo_function =
  df_id :: jsstring
  df_name :: jsstring
  df_category :: jsstring
  df_syntax :: jsstring
  df_description :: jsstring
  df_examples :: "(jsstring \<times> jsstring \<times> jsstring) list"

definition excelFunctions :: "demo_function list" where
  "excelFunctions =
     [\<lparr>df_id = js ''1'', df_name = js ''SUM'', df_category = js ''MATH'',
        df_syntax = js ''SUM(number1, [number2], ...)'',
        df_description = ([25968, 20516, 12398, 21512, 35336, 12434, 35336, 31639, 12375,
                          12414, 12377]),
        df_examples =
          [(js ''=SUM(A1:A10)'', (js ''A1'' @ [12363, 12425] @ js ''A10'' @ [12398, 31684,
                                  22258, 12398, 21512, 35336]),
            ([21512, 35336, 20516])),
           (js ''=SUM(1,2,3,4,5)'', ([25968, 20516, 12398, 30452, 25509, 25351, 23450]), js ''15'')]\<rparr>,
      \<lparr>df_id = js ''2'', df_name = js ''VLOOKUP'', df_category = js ''LOOKUP_REFERENCE'',
        df_syntax = js ''VLOOKUP(lookup_value, table_array, col_index_num, [range_lookup])'',
        df_description = ([22402, 30452, 26041, 21521, 12398, 26908, 32034, 12434, 34892,
                          12356, 12289, 23550, 24540, 12377, 12427, 20516, 12434, 36820,
                          12375, 12414, 12377]),
        df_examples =
          [(js ''=VLOOKUP(A2,C:F,2,FALSE)'',
            (js ''A2'' @ [12398, 20516, 12434] @ js ''C'' @ [21015, 12391, 26908, 32034,
             12375, 12289] @ js ''D'' @ [21015, 12398, 20516, 12434, 36820, 12377]),
            ([23550, 24540, 12377, 12427, 20516]))]\<rparr>,
      \<lparr>df_id = js ''3'', df_name = js ''IF'', df_category = js ''LOGICAL'',
        df_syntax = js ''IF(logical_test, value_if_true, [value_if_false])'',
        df_description = ([26465, 20214, 12395, 24540, 12376, 12390, 30064, 12394, 12427,
                          20516, 12434, 36820, 12375, 12414, 12377]),
        df_examples =
          [((js ''=IF(A1>10,'' @ [34, 22823, 34] @ js '','' @ [34, 23567, 34] @ js '')''),
            (js ''A1'' @ [12364] @ js ''10'' @ [12424, 12426, 22823, 12365, 12356, 22580,
             21512, 12399, 12300, 22823, 12301, 12289, 12381, 12358, 12391, 12394, 12369,
             12428, 12400, 12300, 23567, 12301]),
            ([22823] @ js '' '' @ [12414, 12383, 12399] @ js '' '' @ [23567]))]\<rparr>]"

datatype demo_chat_response = DemoMessageRequired | DemoAnswer jsstring nat

definition demo_function_block :: "demo_function \<Rightarrow> jsstring" where
  "demo_function_block func =
     ([55357, 56522] @ js '' **'') @ df_name func @ ([38306, 25968] @ js ''**'' @ [10])
     @ df_description func @ [10]
     @ ([27083, 25991] @ js '': '' @ [96]) @ df_syntax func @ [96, 10, 10]"

definition demo_chat_message :: "case_table \<Rightarrow> jsstring option \<Rightarrow> demo_chat_response" where
  "demo_chat_message tbl message =
     (case message of
        None \<Rightarrow> DemoMessageRequired
      | Some m \<Rightarrow>
          if m = [] then DemoMessageRequired
          else
            (let lowerMessage = toLowerCase tbl m;
                 relatedFunctions =
                   filter (\<lambda>func.
                       js_includes lowerMessage (toLowerCase tbl (df_name func))
                       \<or> js_includes (toLowerCase tbl (df_description func)) lowerMessage
                       \<or> js_includes lowerMessage ([38306, 25968])
                       \<or> js_includes lowerMessage (js ''excel''))
                     excelFunctions;
                 response =
                   (js ''Excel'' @ [23554, 38272, 12481, 12515, 12483, 12488, 12508,
                    12483, 12488, 12391, 12377, 12290, 10, 10])
                   @ (if length relatedFunctions > 0
                      then ([38306, 36899, 12377, 12427, 24773, 22577, 12434, 35211,
                            12388, 12369, 12414, 12375, 12383, 65306, 10, 10])
                        @ concat (map demo_function_block relatedFunctions)
                      else ([30003, 12375, 35379, 12372, 12374, 12356, 12414, 12379,
                            12435, 12364, 12289, 12362, 25506, 12375, 12398, 24773, 22577,
                            12364, 35211, 12388, 12363, 12426, 12414, 12379, 12435, 12391,
                            12375, 12383, 12290, 10])
                        @ (js ''Excel'' @ [38306, 36899, 12398, 12461, 12540, 12527,
                           12540, 12489, 12434, 20351, 12387, 12390, 12418, 12358, 19968,
                           24230, 12362, 35430, 12375, 12367, 12384, 12373, 12356, 12290,
                           10, 10])
                        @ ([20363, 65306, 10])
                        @ ([8226] @ js '' '' @ [39] @ js ''SUM'' @ [38306, 25968, 12398,
                           20351, 12356, 26041, 39, 10])
                        @ ([8226] @ js '' '' @ [39] @ js ''VLOOKUP'' @ [12391, 26908,
                           32034, 12375, 12383, 12356, 39, 10])
                        @ ([8226] @ js '' '' @ [39] @ js ''IF'' @ [38306, 25968, 12398,
                           26465, 20214, 20998, 23696, 39, 10]))
             in DemoAnswer response (length relatedFunctions)))"

text \<open>Sample stores for the concrete runs below.\<close>

definition demo_store :: user_store where
  "demo_store = [(js ''demo-user-001'', demo_user)]"

definition guest_store :: chat_store where
  "guest_store = [js ''guest'' \<mapsto>
     [UserEntry 1000 (js ''how to use SUM'') 1000,
      BotEntry 1001 (js ''how to use SUM'') [] None 1000]]"

definition anonymous_a :: session where
  "anonymous_a = new_session\<lparr>csrfToken := Some (js ''k3x9'')\<rparr>"

definition keep_unit :: case_table where
  "keep_unit s i = take 1 (drop i s)"

definition accepts_all :: "user \<Rightarrow> bool" where
  "accepts_all u = True"

definition plain_hash :: "jsstring \<Rightarrow> jsstring" where
  "plain_hash pw = pw"

definition echo_ai :: "jsstring \<Rightarrow> excel_ai_reply option" where
  "echo_ai m = Some \<lparr>reply_response = m, reply_formulas = None, reply_vbaCode = None,
     reply_functionsFound = None\<rparr>"

definition delete_request :: request where
  "delete_request = \<lparr>req_method = js ''DELETE'', header_csrf_token = None, body_csrf = None,
     query_csrf = None\<rparr>"

text \<open>A user whose hundredth question of day 0 has been counted.\<close>

definition exhausted_user :: user where
  "exhausted_user = sample_user\<lparr>usage := \<lparr>questionsAsked = 100, dailyLimit = 100,
     monthlyLimit = 3000, lastResetDate = 3600000\<rparr>\<rparr>"

section \<open>Properties\<close>

subsection \<open>Strings\<close>

lemma js_includes_iff: "js_includes hay needle \<longleftrightarrow> (\<exists>p s. hay = p @ needle @ s)"
proof (induction hay)
  case Nil
  then show ?case by auto
next
  case (Cons c cs)
  show ?case
  proof
    assume "js_includes (c # cs) needle"
    then consider "prefix needle (c # cs)" | "js_includes cs needle" by auto
    then show "\<exists>p s. c # cs = p @ needle @ s"
    proof cases
      case 1
      then obtain s where "c # cs = needle @ s" by (auto simp: prefix_def)
      then have "c # cs = [] @ needle @ s" by simp
      then show ?thesis by blast
    next
      case 2
      with Cons.IH obtain p s where "cs = p @ needle @ s" by blast
      then have "c # cs = (c # p) @ needle @ s" by simp
      then show ?thesis by blast
    qed
  next
    assume "\<exists>p s. c # cs = p @ needle @ s"
    then obtain p s where eq: "c # cs = p @ needle @ s" by blast
    show "js_includes (c # cs) needle"
    proof (cases p)
      case Nil
      with eq have "prefix needle (c # cs)" by (simp add: prefix_def)
      then show ?thesis by simp
    next
      case (Cons a p')
      with eq have "cs = p' @ needle @ s" by simp
      with Cons.IH have "js_includes cs needle" by blast
      then show ?thesis by simp
    qed
  qed
qed

subsection \<open>Account lock-out\<close>

lemma five_failures_reachable: "reachable five_failures"
  unfolding five_failures_def
  by (intro reachable.failed reachable.fresh) (simp_all add: sample_user_def)

lemma five_failures_lock: "lockUntil five_failures = Some 7205000"
  by (simp add: five_failures_def incLoginAttempts_def isLocked_def sample_user_def)

text \<open>
  C8. In every state of a user document reached by failed-login increments, lock
  setting, lock-expiry resets and successful-login resets, \<open>isLocked\<close> holds exactly
  when \<open>lockUntil\<close> is set and lies strictly after the current time.
\<close>

theorem isLocked_iff_lockUntil_future:
  "reachable u \<Longrightarrow> isLocked u now \<longleftrightarrow> (\<exists>t. lockUntil u = Some t \<and> now < t)"
  by (simp add: isLocked_def split: option.splits)

theorem isLocked_iff_lockUntil_future_witness:
  "reachable five_failures \<and> isLocked five_failures 6000 \<and> \<not> isLocked five_failures 7205000"
  using isLocked_iff_lockUntil_future [OF five_failures_reachable, of 6000]
        isLocked_iff_lockUntil_future [OF five_failures_reachable, of 7205000]
        five_failures_reachable five_failures_lock
  by simp







lemma wrong_for_counter [simp]:
  "wrong_for discount cmp n (u\<lparr>loginAttempts := k\<rparr>) = wrong_for discount cmp n u"
  by (rule ext) (simp add: wrong_for_def)







subsection \<open>The chat handler's quota and keyword gates\<close>






lemma canAskQuestion_iff:
  "canAskQuestion u \<longleftrightarrow>
     questionsAsked (usage u)
       < (if role u = RolePremium then 5 * dailyLimit (usage u) else dailyLimit (usage u))"
  by (simp add: canAskQuestion_def Let_def mult.commute)

lemma quota_exhausted_stays:
  "\<not> canAskQuestion u \<Longrightarrow> post_message tbl textSearch u message today = (DailyLimitExceeded, u)"
  by (simp add: post_message_def)

text \<open>
  C3 at the failing input. The day counter is reset only inside \<open>incrementUsage\<close>,
  which the handler reaches only after \<open>canAskQuestion\<close> has passed. A user who used
  up the quota on day 0 is therefore still answered 429 on day 1, for every message,
  and the stored counter is not touched.
\<close>

theorem daily_limit_not_reset_next_day:
  "incrementUsage
     (sample_user\<lparr>usage := \<lparr>questionsAsked = 99, dailyLimit = 100, monthlyLimit = 3000,
        lastResetDate = 3600000\<rparr>\<rparr>) 7200000 = exhausted_user
   \<and> toDateString 90000000 \<noteq> toDateString (lastResetDate (usage exhausted_user))
   \<and> post_message tbl textSearch exhausted_user message 90000000
       = (DailyLimitExceeded, exhausted_user)
   \<and> chat_status DailyLimitExceeded = 429"
  by (simp add: post_message_def canAskQuestion_def exhausted_user_def sample_user_def
      toDateString_def incrementUsage_def)

subsection \<open>CSRF\<close>

lemma csrfProtection_rejects:
  assumes "req_method req \<notin> {js ''GET'', js ''HEAD'', js ''OPTIONS''}"
    and "csrfProtection verify secretSync req sess = (out, sess')"
    and "\<not> (\<exists>tk secret.
            js_or (js_or (header_csrf_token req) (body_csrf req)) (query_csrf req) = Some tk
            \<and> tk \<noteq> [] \<and> csrfSecret sess' = Some secret \<and> verify secret tk)"
  shows "out = CsrfTokenInvalid"
  using assms
  by (auto simp: csrfProtection_def Let_def split: option.splits if_splits)

lemma api_pipeline_rejects:
  assumes "csrfProtection verify secretSync req sess = (CsrfTokenInvalid, sess')"
  shows "api_pipeline verify secretSync handler req sess = (Rejected 403, sess')"
  using assms by (simp add: api_pipeline_def)

text \<open>
  C4 at the failing input. A session has been issued a token by
  \<open>GET /api/auth/csrf-token\<close>; a \<open>DELETE /api/chat/history\<close> that carries no token at
  all is answered 200 by \<open>server-simple.js\<close> and the history is gone. The same request
  through the pipeline of \<open>server.js\<close> is answered 403 before any handler runs.
\<close>

theorem simple_server_delete_without_csrf_token:
  "snd (simple_csrf_token (js ''k3x9'') new_session) = anonymous_a
   \<and> simple_server_delete_history delete_request guest_store anonymous_a = (200, Map.empty)
   \<and> api_pipeline verify secretSync handler delete_request anonymous_a
       = (Rejected 403, anonymous_a\<lparr>csrfSecret := Some secretSync\<rparr>)"
  by (simp add: simple_server_delete_history_def delete_history_def session_key_def
      guest_store_def anonymous_a_def new_session_def delete_request_def api_pipeline_def
      csrfProtection_def js_or_def truthy_def js_def simple_csrf_token_def)

subsection \<open>Registration\<close>

lemma find_username_taken:
  "list_ex (\<lambda>u. username u = name) db \<Longrightarrow>
     find (\<lambda>u. email u = mail \<or> username u = name) db \<noteq> None"
  by (induction db) auto

text \<open>
  C5, as the handlers have it. On the demo server a registration whose username is
  already in the store and whose fields pass the handler's checks (username of at least
  3 and password of at least 6 code units) is answered 409; whatever the password
  field holds, the answer is 400 or 409 and the store and the session are unchanged.
  The handler of \<open>routes/auth.js\<close> answers 409 and leaves the collection unchanged
  whenever the username is taken.
\<close>

theorem duplicate_username_conflict:
  "(list_ex (\<lambda>(i, u). su_username u = n) users \<longrightarrow>
      (3 \<le> length n \<and> 6 \<le> length p \<longrightarrow>
         simple_register users sess (Some n) (Some p) mail stamp now = (Conflict, users, sess))
      \<and> snd (simple_register users sess (Some n) pw mail stamp now) = (users, sess)
      \<and> simple_register_status (fst (simple_register users sess (Some n) pw mail stamp now))
          \<in> {400, 409})
   \<and> (list_ex (\<lambda>u. username u = name) db \<longrightarrow>
      auth_register tbl saves hash db s name addr word newId token t = (UserAlreadyExists, db, s))"
proof (intro conjI impI)
  assume "list_ex (\<lambda>(i, u). su_username u = n) users" "3 \<le> length n \<and> 6 \<le> length p"
  then show "simple_register users sess (Some n) (Some p) mail stamp now = (Conflict, users, sess)"
    by (auto simp: simple_register_def)
next
  assume "list_ex (\<lambda>(i, u). su_username u = n) users"
  then show "snd (simple_register users sess (Some n) pw mail stamp now) = (users, sess)"
    by (simp add: simple_register_def split: option.splits)
next
  assume "list_ex (\<lambda>(i, u). su_username u = n) users"
  then show "simple_register_status (fst (simple_register users sess (Some n) pw mail stamp now))
          \<in> {400, 409}"
    by (simp add: simple_register_def split: option.splits)
next
  assume "list_ex (\<lambda>u. username u = name) db"
  then have "find (\<lambda>u. email u = addr \<or> username u = name) db \<noteq> None"
    by (rule find_username_taken)
  then show "auth_register tbl saves hash db s name addr word newId token t
      = (UserAlreadyExists, db, s)"
    by (auto simp: auth_register_def)
qed

theorem duplicate_username_conflict_witness:
  "list_ex (\<lambda>(i, u). su_username u = js ''demo'') demo_store
   \<and> simple_register demo_store new_session (Some (js ''demo'')) (Some (js ''demo123'')) None
        (js ''1700000000000_k3j9x2q1z'') 1700000000000
      = (Conflict, demo_store, new_session)
   \<and> list_ex (\<lambda>u. username u = js ''alice'') [sample_user]
   \<and> auth_register keep_unit accepts_all plain_hash [sample_user] new_session (js ''alice'')
        (js ''other@example.com'') (js ''Secret@123'') (js ''u2'') (js ''tok'') 5000
      = (UserAlreadyExists, [sample_user], new_session)"
proof -
  have h1: "list_ex (\<lambda>(i, u). su_username u = js ''demo'') demo_store"
    by (simp add: demo_store_def demo_user_def)
  have h2: "3 \<le> length (js ''demo'') \<and> 6 \<le> length (js ''demo123'')"
    by (simp add: js_def)
  have h3: "list_ex (\<lambda>u. username u = js ''alice'') [sample_user]"
    by (simp add: sample_user_def)
  from h1 h2 h3
    duplicate_username_conflict [where n = "js ''demo''" and users = demo_store
      and p = "js ''demo123''" and sess = new_session and mail = None
      and stamp = "js ''1700000000000_k3j9x2q1z''" and now = 1700000000000
      and name = "js ''alice''" and db = "[sample_user]" and tbl = keep_unit
      and saves = accepts_all and hash = plain_hash and s = new_session
      and addr = "js ''other@example.com''" and word = "js ''Secret@123''"
      and newId = "js ''u2''" and token = "js ''tok''" and t = 5000]
  show ?thesis by simp
qed

text \<open>
  The claim as written fails on the demo server: after the demo login has stored the
  user \<open>demo\<close>, a registration as \<open>demo\<close> with the password \<open>abc\<close> is answered 400,
  not 409, because the length checks come before the duplicate check.
\<close>

theorem duplicate_username_short_password_counterexample:
  "fst (snd (simple_login [] new_session (Some (js ''demo'')) (Some (js ''demo123''))))
     = demo_store
   \<and> list_ex (\<lambda>(i, u). su_username u = js ''demo'') demo_store
   \<and> simple_register demo_store new_session (Some (js ''demo'')) (Some (js ''abc'')) None
        (js ''1700000000000_k3j9x2q1z'') 1700000000000
      = (PasswordTooShort, demo_store, new_session)
   \<and> simple_register_status PasswordTooShort = 400"
  by (simp add: simple_register_def simple_login_def demo_store_def demo_user_def truthy_def
      js_def)

text \<open>
  C7, as the two servers have it. On the demo server a registration whose fields pass
  the checks and whose username is free is answered 201, stores the new user under its
  id, and marks the session as logged in under that id: \<open>GET /api/auth/me\<close> on the
  session then returns the new user, with no login in between. The handler of
  \<open>routes/auth.js\<close> never writes the session, and when it answers 201 the document it
  has added to the collection is not verified.
\<close>

theorem simple_register_auto_login:
  "(3 \<le> length n \<and> 6 \<le> length p \<and> \<not> list_ex (\<lambda>(i, u). su_username u = n) users \<longrightarrow>
    (case simple_register users sess (Some n) (Some p) mail stamp now of
       (r, users', sess') \<Rightarrow>
         (let newUser = \<lparr>su_id = js ''user_'' @ stamp, su_username = n, su_password = Some p,
                          su_email = (if truthy mail then mail else None),
                          su_createdAt = Some now\<rparr>
          in r = Registered newUser \<and> simple_register_status r = 201
             \<and> map_of users' (js ''user_'' @ stamp) = Some newUser
             \<and> session_isLoggedIn sess'
             \<and> session_userId sess' = Some (js ''user_'' @ stamp)
             \<and> simple_me users' sess' = Some newUser)))
   \<and> snd (snd (auth_register tbl saves hash db s name addr word newId token t)) = s
   \<and> (fst (auth_register tbl saves hash db s name addr word newId token t) = UserRegistered v
      \<longrightarrow> register_status (UserRegistered v) = 201
          \<and> fst (snd (auth_register tbl saves hash db s name addr word newId token t)) = db @ [v]
          \<and> \<not> isEmailVerified v)"
proof (intro conjI impI)
  assume "3 \<le> length n \<and> 6 \<le> length p \<and> \<not> list_ex (\<lambda>(i, u). su_username u = n) users"
  then show "case simple_register users sess (Some n) (Some p) mail stamp now of
       (r, users', sess') \<Rightarrow>
         (let newUser = \<lparr>su_id = js ''user_'' @ stamp, su_username = n, su_password = Some p,
                          su_email = (if truthy mail then mail else None),
                          su_createdAt = Some now\<rparr>
          in r = Registered newUser \<and> simple_register_status r = 201
             \<and> map_of users' (js ''user_'' @ stamp) = Some newUser
             \<and> session_isLoggedIn sess'
             \<and> session_userId sess' = Some (js ''user_'' @ stamp)
             \<and> simple_me users' sess' = Some newUser)"
    by (auto simp: simple_register_def simple_me_def truthy_def js_def Let_def update_conv')
next
  show "snd (snd (auth_register tbl saves hash db s name addr word newId token t)) = s"
    by (simp add: auth_register_def Let_def split: option.splits)
next
  assume r: "fst (auth_register tbl saves hash db s name addr word newId token t)
      = UserRegistered v"
  then show "fst (snd (auth_register tbl saves hash db s name addr word newId token t))
      = db @ [v]"
    by (auto simp: auth_register_def Let_def split: option.splits if_splits)
  from r show "\<not> isEmailVerified v"
    by (auto simp: auth_register_def Let_def split: option.splits if_splits)
qed simp

theorem simple_register_auto_login_witness:
  "3 \<le> length (js ''alice'') \<and> 6 \<le> length (js ''secret1'')
   \<and> \<not> list_ex (\<lambda>(i, u). su_username u = js ''alice'') demo_store
   \<and> simple_me
        (fst (snd (simple_register demo_store new_session (Some (js ''alice''))
           (Some (js ''secret1'')) None (js ''1700000000000_k3j9x2q1z'') 1700000000000)))
        (snd (snd (simple_register demo_store new_session (Some (js ''alice''))
           (Some (js ''secret1'')) None (js ''1700000000000_k3j9x2q1z'') 1700000000000)))
      = Some \<lparr>su_id = js ''user_1700000000000_k3j9x2q1z'', su_username = js ''alice'',
          su_password = Some (js ''secret1''), su_email = None,
          su_createdAt = Some 1700000000000\<rparr>"
proof -
  have h: "3 \<le> length (js ''alice'') \<and> 6 \<le> length (js ''secret1'')
      \<and> \<not> list_ex (\<lambda>(i, u). su_username u = js ''alice'') demo_store"
    by (simp add: demo_store_def demo_user_def js_def)
  from h simple_register_auto_login [where n = "js ''alice''" and p = "js ''secret1''"
      and users = demo_store and sess = new_session and mail = None
      and stamp = "js ''1700000000000_k3j9x2q1z''" and now = 1700000000000,
      THEN conjunct1]
  show ?thesis
    by (auto simp: Let_def truthy_def js_def split: prod.splits)
qed

text \<open>
  The claim as written fails on \<open>routes/auth.js\<close>: a registration that is answered
  201 leaves the session as it was, and a login with the right password straight
  after is answered 403 because the new account is not verified.
\<close>

theorem auth_register_no_session_counterexample:
  "(case auth_register keep_unit accepts_all plain_hash [] new_session (js ''alice'')
           (js ''alice@example.com'') (js ''Secret@123'') (js ''u1'') (js ''tok'') 1000 of
      (r, db', sess') \<Rightarrow>
        register_status r = 201
        \<and> db' = [unverified_user\<lparr>emailVerificationToken := Some (js ''tok''),
            emailVerificationExpires := Some 86401000,
            usage := \<lparr>questionsAsked = 0, dailyLimit = 100, monthlyLimit = 3000,
              lastResetDate = 1000\<rparr>\<rparr>]
        \<and> session_userId sess' = None \<and> sess' = new_session
        \<and> fst (login_found (=) (hd db') sess' (js ''Secret@123'') 2000 (js ''10.0.0.1''))
            = EmailNotVerified)"
  by (simp add: auth_register_def accepts_all_def plain_hash_def new_session_def
      unverified_user_def sample_user_def toLowerCase_def uncased_def js_def login_found_def isLocked_def
      Let_def)

subsection \<open>Chat history of the demo server\<close>

text \<open>
  C9. After \<open>DELETE /api/chat/history\<close>, \<open>GET /api/chat/history\<close> on the same session
  returns the empty list; the delete answers 200, and a second delete answers 200
  again and changes nothing.
\<close>

theorem delete_history_idempotent:
  "get_history (snd (delete_history chatHistory sess)) sess = (200, [])
   \<and> fst (delete_history chatHistory sess) = 200
   \<and> delete_history (snd (delete_history chatHistory sess)) sess
       = (200, snd (delete_history chatHistory sess))"
  by (simp add: get_history_def delete_history_def)

lemma session_key_anonymous: "\<not> truthy (session_userId s) \<Longrightarrow> session_key s = js ''guest''"
  by (auto simp: session_key_def truthy_def split: option.splits)

lemma simple_chat_message_appends:
  assumes "generateResponse m = Some r" "m \<noteq> []"
  shows "\<exists>es. snd (simple_chat_message generateResponse h s (Some m) now) (session_key s) = Some es
           \<and> UserEntry now m now \<in> set es"
proof -
  let ?h0 = "case h (session_key s) of None \<Rightarrow> [] | Some x \<Rightarrow> x"
  let ?new = "[UserEntry now m now,
      BotEntry (now + 1) (reply_response r)
        (case reply_formulas r of None \<Rightarrow> [] | Some fs \<Rightarrow> fs)
        (if truthy (reply_vbaCode r) then reply_vbaCode r else None) now]"
  have "UserEntry now m now \<in> set (drop (length (?h0 @ ?new) - 100) (?h0 @ ?new))"
    by simp
  with assms show ?thesis
    by (simp add: simple_chat_message_def Let_def)
qed

text \<open>
  C10. Two sessions without a user id both use the key \<open>guest\<close>: the three chat
  handlers give the same result for either, a message one of them posts (when the
  responder returns) is in the history the other reads, and a delete by one empties
  the history the other reads.
\<close>

theorem anonymous_clients_share_guest_history:
  "\<not> truthy (session_userId a) \<and> \<not> truthy (session_userId b) \<longrightarrow>
     session_key a = js ''guest'' \<and> session_key b = js ''guest''
     \<and> simple_chat_message generateResponse h a message now
         = simple_chat_message generateResponse h b message now
     \<and> get_history h a = get_history h b
     \<and> delete_history h a = delete_history h b
     \<and> (generateResponse m = Some r \<and> m \<noteq> [] \<longrightarrow>
          UserEntry now m now
            \<in> set (snd (get_history
                  (snd (simple_chat_message generateResponse h a (Some m) now)) b)))
     \<and> get_history (snd (delete_history h a)) b = (200, [])"
proof (intro impI)
  assume anon: "\<not> truthy (session_userId a) \<and> \<not> truthy (session_userId b)"
  then have ka: "session_key a = js ''guest''" and kb: "session_key b = js ''guest''"
    by (simp_all add: session_key_anonymous)
  have post: "simple_chat_message generateResponse h a message now
         = simple_chat_message generateResponse h b message now"
    by (simp add: simple_chat_message_def ka kb)
  have seen: "generateResponse m = Some r \<and> m \<noteq> [] \<longrightarrow>
          UserEntry now m now
            \<in> set (snd (get_history
                  (snd (simple_chat_message generateResponse h a (Some m) now)) b))"
  proof
    assume g: "generateResponse m = Some r \<and> m \<noteq> []"
    then obtain es where
      "snd (simple_chat_message generateResponse h a (Some m) now) (session_key a) = Some es"
      "UserEntry now m now \<in> set es"
      using simple_chat_message_appends [of generateResponse m r h a now] by blast
    then show "UserEntry now m now
            \<in> set (snd (get_history
                  (snd (simple_chat_message generateResponse h a (Some m) now)) b))"
      by (simp add: get_history_def ka kb)
  qed
  from ka kb post seen
  show "session_key a = js ''guest'' \<and> session_key b = js ''guest''
     \<and> simple_chat_message generateResponse h a message now
         = simple_chat_message generateResponse h b message now
     \<and> get_history h a = get_history h b
     \<and> delete_history h a = delete_history h b
     \<and> (generateResponse m = Some r \<and> m \<noteq> [] \<longrightarrow>
          UserEntry now m now
            \<in> set (snd (get_history
                  (snd (simple_chat_message generateResponse h a (Some m) now)) b)))
     \<and> get_history (snd (delete_history h a)) b = (200, [])"
    by (simp add: get_history_def delete_history_def)
qed

theorem anonymous_clients_share_guest_history_witness:
  "\<not> truthy (session_userId anonymous_a) \<and> \<not> truthy (session_userId new_session)
   \<and> anonymous_a \<noteq> new_session
   \<and> UserEntry 2000 (js ''sum of a column'') 2000
       \<in> set (snd (get_history
             (snd (simple_chat_message echo_ai guest_store anonymous_a
                (Some (js ''sum of a column'')) 2000)) new_session))
   \<and> get_history (snd (delete_history guest_store anonymous_a)) new_session = (200, [])"
proof -
  have h1: "\<not> truthy (session_userId anonymous_a) \<and> \<not> truthy (session_userId new_session)"
    by (simp add: anonymous_a_def new_session_def truthy_def)
  have h2: "echo_ai (js ''sum of a column'')
      = Some \<lparr>reply_response = js ''sum of a column'', reply_formulas = None,
          reply_vbaCode = None, reply_functionsFound = None\<rparr>
      \<and> js ''sum of a column'' \<noteq> []"
    by (simp add: echo_ai_def js_def)
  have h3: "anonymous_a \<noteq> new_session"
    by (simp add: anonymous_a_def new_session_def)
  from h1 h2 h3
    anonymous_clients_share_guest_history [of anonymous_a new_session echo_ai guest_store _
      2000 "js ''sum of a column''" _]
  show ?thesis by blast
qed

subsection \<open>The first demo server's answer to a SUM question\<close>

lemma sum_entry:
  "df_name (hd excelFunctions) = js ''SUM''"
  "df_syntax (hd excelFunctions) = js ''SUM(number1, [number2], ...)''"
  by (simp_all add: excelFunctions_def)

lemma sum_question_japanese:
  "(case demo_chat_message tbl (Some (js ''SUM'' @ [38306, 25968, 12398, 20351, 12356, 26041])) of
      DemoAnswer response n \<Rightarrow> js_includes response (js ''SUM(number1, [number2], ...)'')
    | DemoMessageRequired \<Rightarrow> False)"
  by (simp add: demo_chat_message_def excelFunctions_def demo_function_block_def
      toLowerCase_def uncased_def js_def)

lemma sum_question_english:
  "(case demo_chat_message tbl (Some (js ''how to use SUM'')) of
      DemoAnswer response n \<Rightarrow> js_includes response (js ''SUM(number1, [number2], ...)'')
    | DemoMessageRequired \<Rightarrow> False)"
  by (simp add: demo_chat_message_def excelFunctions_def demo_function_block_def
      toLowerCase_def uncased_def js_def)

text \<open>
  C6. The answer of the first demo server to the Japanese question "how to use the SUM
  function" (the letters SUM followed by six kana and kanji) and to "how to use SUM"
  contains the syntax string of the SUM entry. The answer is a function of the
  message alone.
\<close>

theorem sum_question_includes_syntax:
  "(case demo_chat_message tbl (Some (js ''SUM'' @ [38306, 25968, 12398, 20351, 12356, 26041])) of
      DemoAnswer response n \<Rightarrow> js_includes response (df_syntax (hd excelFunctions))
    | DemoMessageRequired \<Rightarrow> False)
   \<and> (case demo_chat_message tbl (Some (js ''how to use SUM'')) of
      DemoAnswer response n \<Rightarrow> js_includes response (df_syntax (hd excelFunctions))
    | DemoMessageRequired \<Rightarrow> False)
   \<and> df_syntax (hd excelFunctions) = js ''SUM(number1, [number2], ...)''"
  unfolding sum_entry using sum_question_japanese sum_question_english by simp

end
